theory Spec2Isabelle
  imports Main "HOL-Library.Multiset"
begin

section \<open>Data model of Tasks.py\<close>

text \<open>
  Python objects are compared by identity (\<open>is\<close>, and \<open>in\<close> / \<open>list.remove\<close> for
  classes that keep the default \<open>__eq__\<close>). Every object of the model therefore carries
  the reference it was allocated at, so that HOL equality of two objects is identity of
  the Python objects. Task objects are mutable and live in a store indexed by their
  reference; a Thread and an OpenFileDescriptor point back to their task by reference.
\<close>

type_synonym obj_ref = nat

datatype task_status = TaskNew | TaskReady | TaskKill

datatype cpu_mode = PrivilegedMode | UserMode

text \<open>What a simulated CPU register can hold: nothing, a user, or a task.\<close>

datatype pyobj = PyNone | UserObj obj_ref | TaskObj obj_ref

record thread =
  thread_obj :: obj_ref
  thread_id :: int
  thread_task :: obj_ref
  thread_nonPreemptive :: bool

record sim_file =
  file_name :: string
  file_size :: nat

record ofd =
  ofd_obj :: obj_ref
  ofd_file :: sim_file
  ofd_task :: obj_ref

text \<open>
  The exceptions the file can raise. \<open>Exception\<close> is Python's built-in class, raised by
  \<open>setActiveThread\<close> with the literal text of its f-string and the thread the f-string
  interpolates. \<open>SimException\<close> is the class the file imports from \<open>SimExceptions\<close>.
  \<open>AttributeError\<close> is what calling \<open>kill()\<close> on a register value that is not a task
  gives.
\<close>

datatype error =
    AssertionError
  | AttributeError
  | Exception string thread
  | SimException string thread

text \<open>The fields of \<open>Task\<close>, as \<open>__init__\<close> declares them (lines 126-159).\<close>

record task =
  status :: task_status
  task_id :: int
  user :: pyobj
  nonPreemptive :: bool
  priority :: int
  threadsList :: "thread list"
  nextThreadNum :: int
  openFileDescriptor :: "ofd list"
  activeThread :: "thread option"
  pageTable :: obj_ref
  swapDirFile :: string
  swapFile :: ofd

section \<open>Instance methods that touch only the task itself\<close>

text \<open>\<open>getNumThreads\<close> (line 427): \<open>return self.__nextThreadNum\<close>.\<close>

definition getNumThreads :: "task \<Rightarrow> int" where
  "getNumThreads self = nextThreadNum self"

text \<open>\<open>addThread\<close> (line 439): \<open>self.__threadsList.append(thread)\<close>.\<close>

definition addThread :: "task \<Rightarrow> thread \<Rightarrow> task" where
  "addThread self th = self\<lparr>threadsList := threadsList self @ [th]\<rparr>"

text \<open>
  \<open>removeThread\<close> (lines 460-468). The active thread is cleared first when it is the
  argument; \<open>list.remove\<close> then drops the first occurrence, and the \<open>ValueError\<close> it raises
  for an absent thread is swallowed by the bare \<open>except\<close>.
\<close>

definition removeThread :: "task \<Rightarrow> thread \<Rightarrow> task" where
  "removeThread self th =
     (let self1 = (if activeThread self = Some th then self\<lparr>activeThread := None\<rparr> else self)
      in if th \<in> set (threadsList self1)
         then self1\<lparr>threadsList := remove1 th (threadsList self1)\<rparr>
         else self1)"

text \<open>\<open>getThread\<close> (lines 487-491): the first thread of the list with the given id.\<close>

definition getThread :: "task \<Rightarrow> int \<Rightarrow> thread option" where
  "getThread self i = find (\<lambda>x. thread_id x = i) (threadsList self)"

definition getActiveThread :: "task \<Rightarrow> thread option" where
  "getActiveThread self = activeThread self"

text \<open>
  \<open>setActiveThread\<close> (lines 529-537). The result is the task after the call together with
  the outcome: \<open>Inr ()\<close> for a normal return, \<open>Inl e\<close> for the exception raised.
\<close>

definition setActiveThread :: "task \<Rightarrow> thread option \<Rightarrow> task \<times> (error + unit)" where
  "setActiveThread self x =
     (case x of
        None \<Rightarrow> (self\<lparr>activeThread := None\<rparr>, Inr ())
      | Some th \<Rightarrow>
          if th \<in> set (threadsList self)
          then (self\<lparr>activeThread := Some th\<rparr>, Inr ())
          else (self, Inl (Exception ''SimException: Thread DNE in List: '' th)))"

definition getThreadList :: "task \<Rightarrow> thread list" where
  "getThreadList self = threadsList self"

text \<open>\<open>addOpenFile\<close> (lines 566-569) and \<open>removeOpenFile\<close> (lines 587-590).\<close>

definition addOpenFile :: "task \<Rightarrow> ofd \<Rightarrow> task" where
  "addOpenFile self fd =
     (if fd \<notin> set (openFileDescriptor self)
      then self\<lparr>openFileDescriptor := openFileDescriptor self @ [fd]\<rparr>
      else self)"

definition removeOpenFile :: "task \<Rightarrow> ofd \<Rightarrow> task" where
  "removeOpenFile self fd =
     (if fd \<in> set (openFileDescriptor self)
      then self\<lparr>openFileDescriptor := remove1 fd (openFileDescriptor self)\<rparr>
      else self)"

definition getOpenFileList :: "task \<Rightarrow> ofd list" where
  "getOpenFileList self = openFileDescriptor self"

section \<open>The simulator state\<close>

text \<open>
  The calls into the collaborator classes that the claims count, in the order they are
  made.
\<close>

datatype event =
    ThreadNew thread
  | ThreadKill thread
  | FileClose ofd
  | DeallocatePages obj_ref
  | DirectoryRm string ofd

text \<open>
  The state the module reads and writes: the class-level data of \<open>Globals\<close>, \<open>CPU\<close> and
  \<open>SimTask\<close>, the directories of the file system, the store of Task objects, the next
  free object reference, and the log of collaborator calls.
\<close>

record world =
  mode :: cpu_mode
  registers :: "nat \<Rightarrow> pyobj"
  rescheduleNeeded :: bool
  maxNumTasks :: int
  maxNumThreads :: int
  numAddressBits :: nat
  liveTasks :: "obj_ref list"
  nextTaskId :: int
  dirs :: "string \<Rightarrow> string \<Rightarrow> sim_file option"
  tasks :: "obj_ref \<Rightarrow> task"
  next_obj :: obj_ref
  calls :: "event list"

text \<open>A method call on the Task object at a reference: the object is replaced by its
  state after the call.\<close>

definition upd_task :: "obj_ref \<Rightarrow> (task \<Rightarrow> task) \<Rightarrow> world \<Rightarrow> world" where
  "upd_task r f w = w\<lparr>tasks := (tasks w)(r := f (tasks w r))\<rparr>"

section \<open>Collaborators\<close>

text \<open>Modelled from the spec: \<open>Globals\<close>, the mode and privilege state (current-mode
  query, set-to-non-privileged mutator), the configured maximum task count, the number
  of address bits and the reschedule-needed flag. The class is imported from
  \<open>Globals.py\<close>, which is not part of the sources.\<close>

definition getMode :: "world \<Rightarrow> cpu_mode" where
  "getMode w = mode w"

definition setUserMode :: "world \<Rightarrow> world" where
  "setUserMode w = w\<lparr>mode := UserMode\<rparr>"

definition getMaxNumTasks :: "world \<Rightarrow> int" where
  "getMaxNumTasks w = maxNumTasks w"

definition getMaxNumThreads :: "world \<Rightarrow> int" where
  "getMaxNumThreads w = maxNumThreads w"

definition getNumAddressBits :: "world \<Rightarrow> nat" where
  "getNumAddressBits w = numAddressBits w"

definition setRescheduleNeeded :: "world \<Rightarrow> world" where
  "setRescheduleNeeded w = w\<lparr>rescheduleNeeded := True\<rparr>"

text \<open>Modelled from the spec: \<open>CPU.getRegister\<close>, reading a general-purpose register of
  the simulated CPU (\<open>Hardware.py\<close> is not part of the sources).\<close>

definition getRegister :: "world \<Rightarrow> nat \<Rightarrow> pyobj" where
  "getRegister w n = registers w n"

text \<open>Modelled from the spec: the registry \<open>SimTask\<close> (\<open>SimTasks.py\<close> is not part of the
  sources). It tracks the live-task count, issues unique task ids, and exposes the
  register and kill hooks: the count is the size of the live-task table, an id is issued
  from a counter that is then advanced, registering enters the task in the table and the
  kill hook takes it out. The spawn hook and the base constructor have no effect the
  spec names.\<close>

definition getNumTasks :: "world \<Rightarrow> int" where
  "getNumTasks w = int (length (liveTasks w))"

definition getUniqueTaskId :: "world \<Rightarrow> int \<times> world" where
  "getUniqueTaskId w = (nextTaskId w, w\<lparr>nextTaskId := nextTaskId w + 1\<rparr>)"

definition registerTask :: "obj_ref \<Rightarrow> world \<Rightarrow> world" where
  "registerTask r w = w\<lparr>liveTasks := liveTasks w @ [r]\<rparr>"

definition SimTask_kill :: "obj_ref \<Rightarrow> world \<Rightarrow> world" where
  "SimTask_kill r w = w\<lparr>liveTasks := removeAll r (liveTasks w)\<rparr>"

definition SimTask_spawn :: "obj_ref \<Rightarrow> world \<Rightarrow> world" where
  "SimTask_spawn r w = w"

text \<open>Modelled from the spec: the page table (\<open>Memory.py\<close> is not part of the sources),
  constructed per task as a fresh object; deallocating its pages is recorded in the
  log.\<close>

definition PageTable_new :: "obj_ref \<Rightarrow> world \<Rightarrow> obj_ref \<times> world" where
  "PageTable_new owner w = (next_obj w, w\<lparr>next_obj := Suc (next_obj w)\<rparr>)"

definition deallocatePages :: "obj_ref \<Rightarrow> world \<Rightarrow> world" where
  "deallocatePages pt w = w\<lparr>calls := calls w @ [DeallocatePages pt]\<rparr>"

text \<open>Modelled from the spec: \<open>Thread\<close> (\<open>Threads.py\<close> is not part of the sources),
  constructed with an id, the owning task and the non-preemptive flag as a fresh object.
  Killing a thread synchronously removes it from the thread collection of its task
  (the self-deregistration of sections 4.5 and 4.6), through the task's own
  \<open>removeThread\<close>.\<close>

definition Thread_new :: "int \<Rightarrow> obj_ref \<Rightarrow> bool \<Rightarrow> world \<Rightarrow> thread \<times> world" where
  "Thread_new i owner np w =
     (let th = \<lparr>thread_obj = next_obj w, thread_id = i, thread_task = owner,
                thread_nonPreemptive = np\<rparr>
      in (th, w\<lparr>next_obj := Suc (next_obj w), calls := calls w @ [ThreadNew th]\<rparr>))"

definition Thread_kill :: "thread \<Rightarrow> world \<Rightarrow> world" where
  "Thread_kill th w =
     upd_task (thread_task th) (\<lambda>t. removeThread t th)
       (w\<lparr>calls := calls w @ [ThreadKill th]\<rparr>)"

text \<open>Modelled from the spec: the file system (\<open>Files.py\<close> is not part of the sources).
  An absolute path resolves to a directory handle (the path itself); a directory maps
  entry names to files; a new file of a given size is entered under its name; opening a
  file gives a fresh descriptor owned by the task; closing a descriptor removes it from
  the open-file collection of its task (the self-deregistration of sections 4.5 and
  4.6), through the task's own \<open>removeOpenFile\<close>; \<open>rm\<close> removes the entry of the
  descriptor's file from the directory.\<close>

definition getFullPathFile :: "string \<Rightarrow> string" where
  "getFullPathFile p = p"

definition getFileEntry :: "string \<Rightarrow> string \<Rightarrow> world \<Rightarrow> sim_file option" where
  "getFileEntry d n w = dirs w d n"

definition newFile :: "string \<Rightarrow> string \<Rightarrow> nat \<Rightarrow> world \<Rightarrow> sim_file \<times> world" where
  "newFile d n sz w =
     (let f = \<lparr>file_name = n, file_size = sz\<rparr>
      in (f, w\<lparr>dirs := (dirs w)(d := (dirs w d)(n \<mapsto> f))\<rparr>))"

definition File_open :: "sim_file \<Rightarrow> obj_ref \<Rightarrow> world \<Rightarrow> ofd \<times> world" where
  "File_open f owner w =
     (\<lparr>ofd_obj = next_obj w, ofd_file = f, ofd_task = owner\<rparr>,
      w\<lparr>next_obj := Suc (next_obj w)\<rparr>)"

definition OpenFileDescriptor_close :: "ofd \<Rightarrow> world \<Rightarrow> world" where
  "OpenFileDescriptor_close fd w =
     upd_task (ofd_task fd) (\<lambda>t. removeOpenFile t fd)
       (w\<lparr>calls := calls w @ [FileClose fd]\<rparr>)"

definition Directory_rm :: "string \<Rightarrow> ofd \<Rightarrow> world \<Rightarrow> world" where
  "Directory_rm d fd w =
     w\<lparr>dirs := (dirs w)(d := (dirs w d)(file_name (ofd_file fd) := None)),
       calls := calls w @ [DirectoryRm d fd]\<rparr>"

text \<open>Python's \<open>str\<close> on an integer: its decimal digits, with a minus sign when negative.\<close>

definition digit_char :: "nat \<Rightarrow> char" where
  "digit_char d = ''0123456789'' ! d"

function str_nat :: "nat \<Rightarrow> string" where
  "str_nat n = (if n < 10 then [digit_char n] else str_nat (n div 10) @ [digit_char (n mod 10)])"
  by pat_completeness auto
termination
  by (relation "measure id") auto

declare str_nat.simps [simp del]

definition str_int :: "int \<Rightarrow> string" where
  "str_int i = (if i < 0 then CHR ''-'' # str_nat (nat (- i)) else str_nat (nat i))"

section \<open>The Task class\<close>

text \<open>
  The constructor (lines 126-159). It allocates the object, a page table and the swap
  file: the entry named after the task id is looked up in \<open>/swap\<close>, created with
  \<open>2 ** numAddressBits\<close> bytes when absent, and opened; the descriptor is the task's
  swap file and the first member of its open files.
\<close>

definition Task_init :: "int \<Rightarrow> pyobj \<Rightarrow> bool \<Rightarrow> world \<Rightarrow> obj_ref \<times> world" where
  "Task_init i u np w =
     (let self = next_obj w;
          w0 = w\<lparr>next_obj := Suc (next_obj w)\<rparr>;
          (pt, w1) = PageTable_new self w0;
          swapDirectory = getFullPathFile ''/swap'';
          swapFileSize = 2 ^ getNumAddressBits w1;
          swapFile = getFileEntry swapDirectory (str_int i) w1;
          (f, w2) = (case swapFile of
                       None \<Rightarrow> newFile swapDirectory (str_int i) swapFileSize w1
                     | Some f \<Rightarrow> (f, w1));
          (opendedSwapFile, w3) = File_open f self w2
      in (self,
          w3\<lparr>tasks := (tasks w3)(self :=
             \<lparr>status = TaskNew, task_id = i, user = u, nonPreemptive = np,
              priority = (if np then - 1 else 0),
              threadsList = [], nextThreadNum = 0,
              openFileDescriptor = [opendedSwapFile],
              activeThread = None, pageTable = pt,
              swapDirFile = swapDirectory, swapFile = opendedSwapFile\<rparr>)\<rparr>))"

text \<open>
  \<open>spawn\<close> (lines 308-315). The guard compares \<open>getNumThreads\<close> with
  \<open>Globals.getMaxNumTasks()\<close>, as line 309 does.
\<close>

definition spawn :: "obj_ref \<Rightarrow> world \<Rightarrow> world" where
  "spawn self w =
     (let w1 = SimTask_spawn self w
      in if getNumThreads (tasks w1 self) < getMaxNumTasks w1
         then
           (let (newThread, w2) =
                  Thread_new (nextThreadNum (tasks w1 self)) self
                    (nonPreemptive (tasks w1 self)) w1;
                w3 = upd_task self (\<lambda>t. addThread t newThread) w2;
                w4 = upd_task self (\<lambda>t. t\<lparr>nextThreadNum := nextThreadNum t + 1\<rparr>) w3
            in setRescheduleNeeded w4)
         else w1)"

text \<open>
  \<open>create\<close> (lines 201-213). The result is the state after the call and the outcome:
  the exception raised, or the value returned (\<open>None\<close> or the new task).
\<close>

definition create :: "bool \<Rightarrow> world \<Rightarrow> world \<times> (error + obj_ref option)" where
  "create np w =
     (if getMode w \<noteq> PrivilegedMode then (w, Inl AssertionError)
      else if getNumTasks w < getMaxNumTasks w
      then
        (let u = getRegister w 6;
             (uniqueid, w1) = getUniqueTaskId w;
             (newTask, w2) = Task_init uniqueid u np w1;
             w3 = registerTask newTask w2;
             w4 = spawn newTask w3;
             w5 = upd_task newTask (\<lambda>t. t\<lparr>status := TaskReady\<rparr>) w4
         in (setUserMode w5, Inr (Some newTask)))
      else (setUserMode w, Inr None))"

text \<open>
  \<open>kill\<close> (lines 268-282). Both loops run over a reversed copy (\<open>[::-1]\<close>) of the list
  as it is when the loop starts.
\<close>

fun kill_threads :: "thread list \<Rightarrow> world \<Rightarrow> world" where
  "kill_threads [] w = w"
| "kill_threads (i # rest) w = kill_threads rest (Thread_kill i w)"

fun close_files :: "ofd list \<Rightarrow> world \<Rightarrow> world" where
  "close_files [] w = w"
| "close_files (i # rest) w = close_files rest (OpenFileDescriptor_close i w)"

definition kill :: "obj_ref \<Rightarrow> world \<Rightarrow> world" where
  "kill self w =
     (let w1 = SimTask_kill self w;
          w2 = upd_task self (\<lambda>t. t\<lparr>status := TaskKill\<rparr>) w1;
          w3 = kill_threads (rev (threadsList (tasks w2 self))) w2;
          filesToClose = getOpenFileList (tasks w3 self);
          w4 = close_files (rev filesToClose) w3;
          w5 = deallocatePages (pageTable (tasks w4 self)) w4
      in Directory_rm (swapDirFile (tasks w5 self)) (swapFile (tasks w5 self)) w5)"




text \<open>
  \<open>killTask\<close> (lines 236-240). Register 1 holds the task, or \<open>None\<close>; any other object
  has no \<open>kill\<close> method.
\<close>

definition killTask :: "world \<Rightarrow> world \<times> (error + unit)" where
  "killTask w =
     (if getMode w \<noteq> PrivilegedMode then (w, Inl AssertionError)
      else
        (case getRegister w 1 of
           PyNone \<Rightarrow> (setUserMode w, Inr ())
         | TaskObj taskInRegister \<Rightarrow> (setUserMode (kill taskInRegister w), Inr ())
         | UserObj x \<Rightarrow> (w, Inl AttributeError)))"

section \<open>Operations on a running system\<close>

text \<open>
  The calls that reach the module during a task's lifetime: the two system calls, the
  public instance methods on the task at a reference, and the two moves of the
  hardware that the system calls depend on (entering privileged mode on a trap,
  loading a register; section 6 of the spec lists both among the collaborators'
  mutators). An exception ends the call; the state is as the call left it.
\<close>

datatype op =
    OpCreate bool
  | OpKillTask
  | OpKill obj_ref
  | OpSpawn obj_ref
  | OpAddThread obj_ref thread
  | OpRemoveThread obj_ref thread
  | OpSetActiveThread obj_ref "thread option"
  | OpAddOpenFile obj_ref ofd
  | OpRemoveOpenFile obj_ref ofd
  | OpSetPrivilegedMode
  | OpSetRegister nat pyobj

fun exec_op :: "op \<Rightarrow> world \<Rightarrow> world" where
  "exec_op (OpCreate np) w = fst (create np w)"
| "exec_op OpKillTask w = fst (killTask w)"
| "exec_op (OpKill r) w = kill r w"
| "exec_op (OpSpawn r) w = spawn r w"
| "exec_op (OpAddThread r th) w = upd_task r (\<lambda>t. addThread t th) w"
| "exec_op (OpRemoveThread r th) w = upd_task r (\<lambda>t. removeThread t th) w"
| "exec_op (OpSetActiveThread r x) w = upd_task r (\<lambda>t. fst (setActiveThread t x)) w"
| "exec_op (OpAddOpenFile r fd) w = upd_task r (\<lambda>t. addOpenFile t fd) w"
| "exec_op (OpRemoveOpenFile r fd) w = upd_task r (\<lambda>t. removeOpenFile t fd) w"
| "exec_op OpSetPrivilegedMode w = w\<lparr>mode := PrivilegedMode\<rparr>"
| "exec_op (OpSetRegister n v) w = w\<lparr>registers := (registers w)(n := v)\<rparr>"

fun run :: "op list \<Rightarrow> world \<Rightarrow> world" where
  "run [] w = w"
| "run (x # xs) w = run xs (exec_op x w)"

text \<open>The collaborator calls a run adds to the log.\<close>

definition new_calls :: "op list \<Rightarrow> world \<Rightarrow> event list" where
  "new_calls ops w = drop (length (calls w)) (calls (run ops w))"

text \<open>The ids of the threads constructed for the task at \<open>r\<close>, in the order of
  construction.\<close>

fun spawned :: "obj_ref \<Rightarrow> event list \<Rightarrow> int list" where
  "spawned r [] = []"
| "spawned r (ThreadNew th # es) =
     (if thread_task th = r then thread_id th # spawned r es else spawned r es)"
| "spawned r (ThreadKill th # es) = spawned r es"
| "spawned r (FileClose fd # es) = spawned r es"
| "spawned r (DeallocatePages pt # es) = spawned r es"
| "spawned r (DirectoryRm d fd # es) = spawned r es"

text \<open>Invariant I3: the active thread is none or a member of the thread collection.\<close>

definition I3 :: "task \<Rightarrow> bool" where
  "I3 t = (case activeThread t of None \<Rightarrow> True | Some th \<Rightarrow> th \<in> set (threadsList t))"

text \<open>An operation that leaves every thread collection alone, or is a spawn.\<close>

fun spawn_or_neutral :: "op \<Rightarrow> bool" where
  "spawn_or_neutral (OpSpawn r) = True"
| "spawn_or_neutral (OpSetActiveThread r x) = True"
| "spawn_or_neutral (OpAddOpenFile r fd) = True"
| "spawn_or_neutral (OpRemoveOpenFile r fd) = True"
| "spawn_or_neutral OpSetPrivilegedMode = True"
| "spawn_or_neutral (OpSetRegister n v) = True"
| "spawn_or_neutral (OpCreate np) = False"
| "spawn_or_neutral OpKillTask = False"
| "spawn_or_neutral (OpKill r) = False"
| "spawn_or_neutral (OpAddThread r th) = False"
| "spawn_or_neutral (OpRemoveThread r th) = False"

text \<open>
  The threads of the task at \<open>r\<close> are existing objects (allocated below the next free
  reference) and pairwise different.
\<close>

definition threads_unique :: "obj_ref \<Rightarrow> world \<Rightarrow> bool" where
  "threads_unique r w =
     (distinct (threadsList (tasks w r)) \<and>
      list_all (\<lambda>th. thread_obj th < next_obj w) (threadsList (tasks w r)) \<and>
      r < next_obj w)"

text \<open>
  A run in which every \<open>addThread\<close> on the task at \<open>r\<close> passes an existing thread that
  is not in the collection at that moment.
\<close>

fun no_double_add :: "obj_ref \<Rightarrow> op list \<Rightarrow> world \<Rightarrow> bool" where
  "no_double_add r [] w = True"
| "no_double_add r (OpAddThread r' th # xs) w =
     ((if r' = r then th \<notin> set (threadsList (tasks w r)) \<and> thread_obj th < next_obj w
       else True) \<and>
      no_double_add r xs (exec_op (OpAddThread r' th) w))"
| "no_double_add r (x # xs) w = no_double_add r xs (exec_op x w)"

section \<open>Concrete states\<close>

text \<open>The content of a store cell that holds no task yet.\<close>

definition no_task :: task where
  "no_task =
     \<lparr>status = TaskNew, task_id = 0, user = PyNone, nonPreemptive = False, priority = 0,
      threadsList = [], nextThreadNum = 0, openFileDescriptor = [], activeThread = None,
      pageTable = 0, swapDirFile = [],
      swapFile = \<lparr>ofd_obj = 0, ofd_file = \<lparr>file_name = [], file_size = 0\<rparr>, ofd_task = 0\<rparr>\<rparr>"

text \<open>
  The system after boot, inside a trap: privileged mode, the requesting user (the
  object at reference 0) in register 6, room for \<open>mt\<close> tasks and \<open>mth\<close> threads, an
  empty swap directory and no task.
\<close>

definition boot :: "int \<Rightarrow> int \<Rightarrow> world" where
  "boot mt mth =
     \<lparr>mode = PrivilegedMode, registers = (\<lambda>n. if n = 6 then UserObj 0 else PyNone),
      rescheduleNeeded = False, maxNumTasks = mt, maxNumThreads = mth, numAddressBits = 4,
      liveTasks = [], nextTaskId = 0, dirs = (\<lambda>d n. None), tasks = (\<lambda>r. no_task),
      next_obj = 1, calls = []\<rparr>"

text \<open>
  The system after two tasks were created, each by its own trap: the objects the two
  constructors and the two spawns allocated (first thread, swap-file descriptor and
  task object of each), and the state as a whole.
\<close>

definition thread_a :: thread where
  "thread_a = \<lparr>thread_obj = 4, thread_id = 0, thread_task = 1, thread_nonPreemptive = False\<rparr>"

definition thread_y :: thread where
  "thread_y = \<lparr>thread_obj = 8, thread_id = 0, thread_task = 5, thread_nonPreemptive = False\<rparr>"

definition fd_one :: ofd where
  "fd_one = \<lparr>ofd_obj = 3, ofd_file = \<lparr>file_name = ''0'', file_size = 16\<rparr>, ofd_task = 1\<rparr>"

definition fd_two :: ofd where
  "fd_two = \<lparr>ofd_obj = 7, ofd_file = \<lparr>file_name = ''1'', file_size = 16\<rparr>, ofd_task = 5\<rparr>"

definition task_one :: task where
  "task_one =
     \<lparr>status = TaskReady, task_id = 0, user = UserObj 0, nonPreemptive = False, priority = 0,
      threadsList = [thread_a], nextThreadNum = 1, openFileDescriptor = [fd_one],
      activeThread = None, pageTable = 2, swapDirFile = ''/swap'', swapFile = fd_one\<rparr>"

definition task_two :: task where
  "task_two =
     \<lparr>status = TaskReady, task_id = 1, user = UserObj 0, nonPreemptive = False, priority = 0,
      threadsList = [thread_y], nextThreadNum = 1, openFileDescriptor = [fd_two],
      activeThread = None, pageTable = 6, swapDirFile = ''/swap'', swapFile = fd_two\<rparr>"

definition two_tasks :: world where
  "two_tasks =
     \<lparr>mode = UserMode, registers = (\<lambda>n. if n = 6 then UserObj 0 else PyNone),
      rescheduleNeeded = True, maxNumTasks = 4, maxNumThreads = 8, numAddressBits = 4,
      liveTasks = [1, 5], nextTaskId = 2,
      dirs = (\<lambda>d n. if d = ''/swap'' \<and> n = ''0'' then Some (ofd_file fd_one)
                     else if d = ''/swap'' \<and> n = ''1'' then Some (ofd_file fd_two)
                     else None),
      tasks = (\<lambda>r. if r = 1 then task_one else if r = 5 then task_two else no_task),
      next_obj = 9, calls = [ThreadNew thread_a, ThreadNew thread_y]\<rparr>"

text \<open>The same system after the first task made its first thread the active one.\<close>

definition active_task :: world where
  "active_task = run [OpSetActiveThread 1 (Some thread_a)] two_tasks"




text \<open>A system whose task table is full: one task created with room for one, and
  the CPU back in privileged mode for the next trap.\<close>

definition full_house :: world where
  "full_house = exec_op OpSetPrivilegedMode (fst (create False (boot 1 8)))"

section \<open>Effects of the collaborators and of the list methods\<close>

lemmas globals_defs = getMode_def setUserMode_def getMaxNumTasks_def getMaxNumThreads_def
  getNumAddressBits_def setRescheduleNeeded_def getRegister_def getNumTasks_def
  getUniqueTaskId_def registerTask_def SimTask_kill_def SimTask_spawn_def

lemmas fs_defs = getFullPathFile_def getFileEntry_def newFile_def File_open_def
  PageTable_new_def Thread_new_def

lemma upd_task_simps [simp]:
  "tasks (upd_task r f w) = (tasks w)(r := f (tasks w r))"
  "calls (upd_task r f w) = calls w"
  "next_obj (upd_task r f w) = next_obj w"
  "mode (upd_task r f w) = mode w"
  "registers (upd_task r f w) = registers w"
  "rescheduleNeeded (upd_task r f w) = rescheduleNeeded w"
  "maxNumTasks (upd_task r f w) = maxNumTasks w"
  "maxNumThreads (upd_task r f w) = maxNumThreads w"
  "numAddressBits (upd_task r f w) = numAddressBits w"
  "liveTasks (upd_task r f w) = liveTasks w"
  "nextTaskId (upd_task r f w) = nextTaskId w"
  "dirs (upd_task r f w) = dirs w"
  by (simp_all add: upd_task_def)

lemma removeThread_fields [simp]:
  "status (removeThread t th) = status t"
  "task_id (removeThread t th) = task_id t"
  "user (removeThread t th) = user t"
  "nonPreemptive (removeThread t th) = nonPreemptive t"
  "priority (removeThread t th) = priority t"
  "nextThreadNum (removeThread t th) = nextThreadNum t"
  "openFileDescriptor (removeThread t th) = openFileDescriptor t"
  "pageTable (removeThread t th) = pageTable t"
  "swapDirFile (removeThread t th) = swapDirFile t"
  "swapFile (removeThread t th) = swapFile t"
  by (simp_all add: removeThread_def Let_def)

lemma removeThread_threadsList [simp]:
  "threadsList (removeThread t th) = remove1 th (threadsList t)"
  by (simp add: removeThread_def Let_def remove1_idem)

lemma removeThread_activeThread [simp]:
  "activeThread (removeThread t th) =
     (if activeThread t = Some th then None else activeThread t)"
  by (simp add: removeThread_def Let_def)

lemma removeOpenFile_fields [simp]:
  "status (removeOpenFile t fd) = status t"
  "task_id (removeOpenFile t fd) = task_id t"
  "user (removeOpenFile t fd) = user t"
  "nonPreemptive (removeOpenFile t fd) = nonPreemptive t"
  "priority (removeOpenFile t fd) = priority t"
  "nextThreadNum (removeOpenFile t fd) = nextThreadNum t"
  "threadsList (removeOpenFile t fd) = threadsList t"
  "activeThread (removeOpenFile t fd) = activeThread t"
  "pageTable (removeOpenFile t fd) = pageTable t"
  "swapDirFile (removeOpenFile t fd) = swapDirFile t"
  "swapFile (removeOpenFile t fd) = swapFile t"
  by (simp_all add: removeOpenFile_def)

lemma removeOpenFile_list [simp]:
  "openFileDescriptor (removeOpenFile t fd) = remove1 fd (openFileDescriptor t)"
  by (simp add: removeOpenFile_def remove1_idem)

lemma Thread_kill_simps [simp]:
  "calls (Thread_kill th w) = calls w @ [ThreadKill th]"
  "tasks (Thread_kill th w) =
     (tasks w)(thread_task th := removeThread (tasks w (thread_task th)) th)"
  "next_obj (Thread_kill th w) = next_obj w"
  "mode (Thread_kill th w) = mode w"
  "registers (Thread_kill th w) = registers w"
  "rescheduleNeeded (Thread_kill th w) = rescheduleNeeded w"
  "maxNumTasks (Thread_kill th w) = maxNumTasks w"
  "maxNumThreads (Thread_kill th w) = maxNumThreads w"
  "numAddressBits (Thread_kill th w) = numAddressBits w"
  "liveTasks (Thread_kill th w) = liveTasks w"
  "nextTaskId (Thread_kill th w) = nextTaskId w"
  "dirs (Thread_kill th w) = dirs w"
  by (simp_all add: Thread_kill_def)

lemma close_simps [simp]:
  "calls (OpenFileDescriptor_close fd w) = calls w @ [FileClose fd]"
  "tasks (OpenFileDescriptor_close fd w) =
     (tasks w)(ofd_task fd := removeOpenFile (tasks w (ofd_task fd)) fd)"
  "next_obj (OpenFileDescriptor_close fd w) = next_obj w"
  "mode (OpenFileDescriptor_close fd w) = mode w"
  "registers (OpenFileDescriptor_close fd w) = registers w"
  "rescheduleNeeded (OpenFileDescriptor_close fd w) = rescheduleNeeded w"
  "maxNumTasks (OpenFileDescriptor_close fd w) = maxNumTasks w"
  "maxNumThreads (OpenFileDescriptor_close fd w) = maxNumThreads w"
  "numAddressBits (OpenFileDescriptor_close fd w) = numAddressBits w"
  "liveTasks (OpenFileDescriptor_close fd w) = liveTasks w"
  "nextTaskId (OpenFileDescriptor_close fd w) = nextTaskId w"
  "dirs (OpenFileDescriptor_close fd w) = dirs w"
  by (simp_all add: OpenFileDescriptor_close_def)

section \<open>The two loops of kill\<close>

lemma kill_threads_calls: "calls (kill_threads ths w) = calls w @ map ThreadKill ths"
  by (induction ths arbitrary: w) simp_all

lemma close_files_calls: "calls (close_files fds w) = calls w @ map FileClose fds"
  by (induction fds arbitrary: w) simp_all

text \<open>Killing threads touches no field of any task but its thread list and its active
  thread; closing files touches none but the open-file list.\<close>

lemma kill_threads_frame:
  "openFileDescriptor (tasks (kill_threads ths w) r) = openFileDescriptor (tasks w r)"
  "pageTable (tasks (kill_threads ths w) r) = pageTable (tasks w r)"
  "swapDirFile (tasks (kill_threads ths w) r) = swapDirFile (tasks w r)"
  "swapFile (tasks (kill_threads ths w) r) = swapFile (tasks w r)"
  "status (tasks (kill_threads ths w) r) = status (tasks w r)"
  "nextThreadNum (tasks (kill_threads ths w) r) = nextThreadNum (tasks w r)"
  by (induction ths arbitrary: w; simp)+

lemma close_files_frame:
  "threadsList (tasks (close_files fds w) r) = threadsList (tasks w r)"
  "activeThread (tasks (close_files fds w) r) = activeThread (tasks w r)"
  "pageTable (tasks (close_files fds w) r) = pageTable (tasks w r)"
  "swapDirFile (tasks (close_files fds w) r) = swapDirFile (tasks w r)"
  "swapFile (tasks (close_files fds w) r) = swapFile (tasks w r)"
  "status (tasks (close_files fds w) r) = status (tasks w r)"
  "nextThreadNum (tasks (close_files fds w) r) = nextThreadNum (tasks w r)"
  by (induction fds arbitrary: w; simp)+

lemma kill_calls:
  "calls (kill self w) =
     calls w @ map ThreadKill (rev (threadsList (tasks w self)))
             @ map FileClose (rev (openFileDescriptor (tasks w self)))
             @ [DeallocatePages (pageTable (tasks w self)),
                DirectoryRm (swapDirFile (tasks w self)) (swapFile (tasks w self))]"
  by (simp add: kill_def Let_def deallocatePages_def Directory_rm_def getOpenFileList_def
      SimTask_kill_def kill_threads_calls close_files_calls kill_threads_frame
      close_files_frame)











lemma kill_threads_dirs [simp]: "dirs (kill_threads ths w) = dirs w"
  by (induction ths arbitrary: w) simp_all

lemma close_files_dirs [simp]: "dirs (close_files fds w) = dirs w"
  by (induction fds arbitrary: w) simp_all






lemma full_house_facts:
  "getMode full_house = PrivilegedMode" "liveTasks full_house = [1]"
  "maxNumTasks full_house = 1" "next_obj full_house = 5"
  by (simp_all add: full_house_def create_def Task_init_def spawn_def globals_defs fs_defs
      Let_def split_def getNumThreads_def addThread_def upd_task_def boot_def)

section \<open>The concrete states are reached from boot\<close>

lemma str_int_small: "str_int 0 = ''0''" "str_int 1 = ''1''"
  by (simp_all add: str_int_def str_nat.simps digit_char_def)

lemma one_task_reached:
  "fst (create False (boot 4 8)) =
     \<lparr>mode = UserMode, registers = (\<lambda>n. if n = 6 then UserObj 0 else PyNone),
      rescheduleNeeded = True, maxNumTasks = 4, maxNumThreads = 8, numAddressBits = 4,
      liveTasks = [1], nextTaskId = 1,
      dirs = (\<lambda>d n. if d = ''/swap'' \<and> n = ''0'' then Some (ofd_file fd_one) else None),
      tasks = (\<lambda>r. if r = 1 then task_one else no_task),
      next_obj = 5, calls = [ThreadNew thread_a]\<rparr>"
  by (simp add: create_def Task_init_def spawn_def globals_defs fs_defs Let_def split_def
      getNumThreads_def addThread_def upd_task_def boot_def str_int_small fun_eq_iff
      task_one_def fd_one_def thread_a_def no_task_def)

lemma two_tasks_reached:
  "run [OpCreate False, OpSetPrivilegedMode, OpCreate False] (boot 4 8) = two_tasks"
  by (simp add: one_task_reached)
     (simp add: create_def Task_init_def spawn_def globals_defs fs_defs Let_def split_def
      getNumThreads_def addThread_def upd_task_def str_int_small fun_eq_iff two_tasks_def
      task_one_def task_two_def fd_one_def fd_two_def thread_a_def thread_y_def no_task_def)

section \<open>Effects of the operations, one at a time and along a run\<close>

lemma kill_threads_next_obj [simp]: "next_obj (kill_threads ths w) = next_obj w"
  by (induction ths arbitrary: w) simp_all

lemma close_files_next_obj [simp]: "next_obj (close_files fds w) = next_obj w"
  by (induction fds arbitrary: w) simp_all

lemma kill_next_obj [simp]: "next_obj (kill r w) = next_obj w"
  by (simp add: kill_def Let_def deallocatePages_def Directory_rm_def SimTask_kill_def)

lemma kill_nextThreadNum [simp]:
  "nextThreadNum (tasks (kill r' w) r) = nextThreadNum (tasks w r)"
  by (simp add: kill_def Let_def deallocatePages_def Directory_rm_def SimTask_kill_def
      kill_threads_frame close_files_frame)

lemma spawned_append [simp]: "spawned r (es @ fs) = spawned r es @ spawned r fs"
  by (induction r es rule: spawned.induct) simp_all

lemma spawned_ThreadKill [simp]: "spawned r (map ThreadKill ths) = []"
  by (induction ths) simp_all

lemma spawned_FileClose [simp]: "spawned r (map FileClose fds) = []"
  by (induction fds) simp_all

lemma spawn_calls:
  "calls (spawn r' w) =
     calls w @ (if nextThreadNum (tasks w r') < maxNumTasks w
                then [ThreadNew \<lparr>thread_obj = next_obj w, thread_id = nextThreadNum (tasks w r'),
                        thread_task = r', thread_nonPreemptive = nonPreemptive (tasks w r')\<rparr>]
                else [])"
  by (simp add: spawn_def globals_defs fs_defs Let_def getNumThreads_def)

lemma spawn_tasks:
  "tasks (spawn r' w) =
     (if nextThreadNum (tasks w r') < maxNumTasks w
      then (tasks w)(r' := (tasks w r')
             \<lparr>threadsList := threadsList (tasks w r') @
                [\<lparr>thread_obj = next_obj w, thread_id = nextThreadNum (tasks w r'),
                  thread_task = r', thread_nonPreemptive = nonPreemptive (tasks w r')\<rparr>],
              nextThreadNum := nextThreadNum (tasks w r') + 1\<rparr>)
      else tasks w)"
  by (simp add: spawn_def globals_defs fs_defs Let_def getNumThreads_def addThread_def)

lemma spawn_next_obj:
  "next_obj (spawn r' w) =
     (if nextThreadNum (tasks w r') < maxNumTasks w then Suc (next_obj w) else next_obj w)"
  by (simp add: spawn_def globals_defs fs_defs Let_def getNumThreads_def)

lemma create_tasks_other:
  "r \<noteq> next_obj w \<Longrightarrow> tasks (fst (create np w)) r = tasks w r"
  by (simp add: create_def Task_init_def spawn_def globals_defs fs_defs Let_def split_def
      getNumThreads_def addThread_def upd_task_def split: option.splits)

lemma create_next_obj: "next_obj w \<le> next_obj (fst (create np w))"
  by (simp add: create_def Task_init_def spawn_def globals_defs fs_defs Let_def split_def
      getNumThreads_def addThread_def upd_task_def split: option.splits)

lemma create_calls:
  "\<exists>es. calls (fst (create np w)) = calls w @ es \<and> (\<forall>r. r \<noteq> next_obj w \<longrightarrow> spawned r es = [])"
  by (simp add: create_def Task_init_def spawn_def globals_defs fs_defs Let_def split_def
      getNumThreads_def addThread_def upd_task_def split: option.splits)


lemma killTask_cases:
  "fst (killTask w) = w \<or> fst (killTask w) = setUserMode w
   \<or> (\<exists>r'. fst (killTask w) = setUserMode (kill r' w))"
  by (auto simp: killTask_def split: pyobj.splits)

lemma setUserMode_simps [simp]:
  "tasks (setUserMode w) = tasks w" "calls (setUserMode w) = calls w"
  "next_obj (setUserMode w) = next_obj w"
  by (simp_all add: setUserMode_def)

lemma nextThreadNum_methods [simp]:
  "nextThreadNum (addThread t th) = nextThreadNum t"
  "nextThreadNum (fst (setActiveThread t x)) = nextThreadNum t"
  "nextThreadNum (addOpenFile t fd) = nextThreadNum t"
  by (simp_all add: addThread_def setActiveThread_def addOpenFile_def split: option.splits)

lemma exec_op_step:
  assumes "r < next_obj w"
  shows "\<exists>es. calls (exec_op x w) = calls w @ es
     \<and> spawned r es = [nextThreadNum (tasks w r) .. nextThreadNum (tasks (exec_op x w) r) - 1]
     \<and> nextThreadNum (tasks w r) \<le> nextThreadNum (tasks (exec_op x w) r)
     \<and> r < next_obj (exec_op x w)"
proof (cases x)
  case (OpCreate np)
  obtain es where es: "calls (fst (create np w)) = calls w @ es"
      "\<forall>r. r \<noteq> next_obj w \<longrightarrow> spawned r es = []"
    using create_calls by blast
  from assms have ne: "r \<noteq> next_obj w" by simp
  have "r < next_obj (fst (create np w))"
    using assms create_next_obj [of w np] by simp
  with es ne show ?thesis
    by (simp add: OpCreate create_tasks_other)
next
  case OpKillTask
  from killTask_cases [of w] show ?thesis
  proof (elim disjE exE)
    assume "fst (killTask w) = w"
    with assms show ?thesis by (simp add: OpKillTask)
  next
    assume "fst (killTask w) = setUserMode w"
    with assms show ?thesis by (simp add: OpKillTask)
  next
    fix r' assume "fst (killTask w) = setUserMode (kill r' w)"
    with assms show ?thesis by (simp add: OpKillTask kill_calls)
  qed
next
  case (OpKill r')
  with assms show ?thesis by (simp add: kill_calls)
next
  case (OpSpawn r')
  with assms show ?thesis
    by (simp add: spawn_calls spawn_tasks spawn_next_obj)
next
  case (OpAddThread r' th)
  with assms show ?thesis by simp
next
  case (OpRemoveThread r' th)
  with assms show ?thesis by simp
next
  case (OpSetActiveThread r' y)
  with assms show ?thesis by simp
next
  case (OpAddOpenFile r' fd)
  with assms show ?thesis by simp
next
  case (OpRemoveOpenFile r' fd)
  with assms show ?thesis by simp
next
  case OpSetPrivilegedMode
  with assms show ?thesis by simp
next
  case (OpSetRegister n v)
  with assms show ?thesis by simp
qed

lemma upto_join:
  "(a::int) \<le> b \<Longrightarrow> b \<le> c \<Longrightarrow> [a..b - 1] @ [b..c - 1] = [a..c - 1]"
proof (cases "b = c")
  case True
  then show ?thesis by simp
next
  case False
  assume "a \<le> b" "b \<le> c"
  with False have "a \<le> b" "b \<le> c - 1" by simp_all
  then show ?thesis by (simp add: upto_split1 [of a b "c - 1"])
qed

lemma run_step:
  "r < next_obj w \<Longrightarrow>
   \<exists>es. calls (run xs w) = calls w @ es
     \<and> spawned r es = [nextThreadNum (tasks w r) .. nextThreadNum (tasks (run xs w) r) - 1]
     \<and> nextThreadNum (tasks w r) \<le> nextThreadNum (tasks (run xs w) r)
     \<and> r < next_obj (run xs w)"
proof (induction xs arbitrary: w)
  case Nil
  then show ?case by simp
next
  case (Cons x xs)
  from exec_op_step [OF Cons.prems, of x] obtain es where es:
    "calls (exec_op x w) = calls w @ es"
    "spawned r es = [nextThreadNum (tasks w r) .. nextThreadNum (tasks (exec_op x w) r) - 1]"
    "nextThreadNum (tasks w r) \<le> nextThreadNum (tasks (exec_op x w) r)"
    "r < next_obj (exec_op x w)"
    by blast
  from Cons.IH [OF es(4)] obtain fs where fs:
    "calls (run xs (exec_op x w)) = calls (exec_op x w) @ fs"
    "spawned r fs = [nextThreadNum (tasks (exec_op x w) r) ..
                     nextThreadNum (tasks (run xs (exec_op x w)) r) - 1]"
    "nextThreadNum (tasks (exec_op x w) r) \<le> nextThreadNum (tasks (run xs (exec_op x w)) r)"
    "r < next_obj (run xs (exec_op x w))"
    by blast
  have "calls (run (x # xs) w) = calls w @ (es @ fs)"
    using es(1) fs(1) by simp
  moreover have "spawned r (es @ fs) =
      [nextThreadNum (tasks w r) .. nextThreadNum (tasks (run (x # xs) w) r) - 1]"
    using es(2) fs(2) upto_join [OF es(3) fs(3)] by simp
  moreover have "nextThreadNum (tasks w r) \<le> nextThreadNum (tasks (run (x # xs) w) r)"
    using es(3) fs(3) by simp
  moreover have "r < next_obj (run (x # xs) w)"
    using fs(4) by simp
  ultimately show ?case by blast
qed

lemma new_calls_run:
  "r < next_obj w \<Longrightarrow>
   spawned r (new_calls xs w) =
     [nextThreadNum (tasks w r) .. nextThreadNum (tasks (run xs w) r) - 1]
   \<and> nextThreadNum (tasks w r) \<le> nextThreadNum (tasks (run xs w) r)"
  using run_step [of r w xs] by (auto simp: new_calls_def)


lemma I3_addThread: "I3 t \<Longrightarrow> I3 (addThread t th)"
  by (auto simp: I3_def addThread_def split: option.splits)

lemma I3_removeThread: "I3 t \<Longrightarrow> I3 (removeThread t th)"
  by (auto simp: I3_def split: option.splits if_splits)

lemma I3_setActiveThread: "I3 t \<Longrightarrow> I3 (fst (setActiveThread t x))"
  by (auto simp: I3_def setActiveThread_def split: option.splits)

lemma I3_cong:
  "activeThread t' = activeThread t \<Longrightarrow> threadsList t' = threadsList t \<Longrightarrow> I3 t' = I3 t"
  by (simp add: I3_def split: option.splits)

lemma I3_open_files: "I3 (addOpenFile t fd) = I3 t" "I3 (removeOpenFile t fd) = I3 t"
  by (simp_all add: I3_def addOpenFile_def split: option.splits)

lemma I3_Thread_kill: "I3 (tasks w r) \<Longrightarrow> I3 (tasks (Thread_kill th w) r)"
  by (auto simp: I3_removeThread)

lemma I3_kill_threads: "I3 (tasks w r) \<Longrightarrow> I3 (tasks (kill_threads ths w) r)"
  by (induction ths arbitrary: w) (simp_all add: I3_Thread_kill del: Thread_kill_simps)

lemma I3_kill: "I3 (tasks w r) \<Longrightarrow> I3 (tasks (kill r' w) r)"
proof -
  assume a: "I3 (tasks w r)"
  let ?w2 = "upd_task r' (\<lambda>t. t\<lparr>status := TaskKill\<rparr>) (SimTask_kill r' w)"
  have "I3 (tasks ?w2 r)"
    using a by (auto simp: I3_def SimTask_kill_def split: option.splits)
  then have "I3 (tasks (kill_threads (rev (threadsList (tasks ?w2 r'))) ?w2) r)"
    by (rule I3_kill_threads)
  then show ?thesis
    by (simp add: kill_def Let_def deallocatePages_def Directory_rm_def
        I3_cong [OF close_files_frame(2) close_files_frame(1)])
qed

lemma I3_spawn: "I3 (tasks w r) \<Longrightarrow> I3 (tasks (spawn r' w) r)"
  by (auto simp: spawn_tasks I3_def split: option.splits)

lemma I3_create: "I3 (tasks w r) \<Longrightarrow> I3 (tasks (fst (create np w)) r)"
proof (cases "r = next_obj w")
  case False
  assume "I3 (tasks w r)"
  with False show ?thesis by (simp add: create_tasks_other)
next
  case True
  assume "I3 (tasks w r)"
  with True show ?thesis
    by (simp add: I3_def create_def Task_init_def spawn_def globals_defs fs_defs Let_def
        split_def getNumThreads_def addThread_def upd_task_def split: option.splits)
qed

lemma I3_killTask: "I3 (tasks w r) \<Longrightarrow> I3 (tasks (fst (killTask w)) r)"
  using killTask_cases [of w] by (auto simp: I3_kill)

lemma I3_exec_op: "I3 (tasks w r) \<Longrightarrow> I3 (tasks (exec_op x w) r)"
  by (cases x)
    (auto simp: I3_create I3_killTask I3_kill I3_spawn I3_addThread I3_removeThread
      I3_setActiveThread I3_open_files)

lemma I3_run: "I3 (tasks w r) \<Longrightarrow> I3 (tasks (run xs w) r)"
  by (induction xs arbitrary: w) (simp_all add: I3_exec_op)


lemma in_remove1D: "x \<in> set (remove1 y xs) \<Longrightarrow> x \<in> set xs"
  using set_remove1_subset [of y xs] by blast

lemma Thread_kill_distinct:
  "distinct (threadsList (tasks w r)) \<Longrightarrow> distinct (threadsList (tasks (Thread_kill th w) r))"
  by auto

lemma Thread_kill_subset:
  "x \<in> set (threadsList (tasks (Thread_kill th w) r)) \<Longrightarrow> x \<in> set (threadsList (tasks w r))"
  by (auto dest: in_remove1D split: if_splits)

lemma kill_threads_distinct:
  "distinct (threadsList (tasks w r)) \<Longrightarrow> distinct (threadsList (tasks (kill_threads ths w) r))"
  by (induction ths arbitrary: w) (simp_all add: Thread_kill_distinct del: Thread_kill_simps)

lemma kill_threads_subset:
  "x \<in> set (threadsList (tasks (kill_threads ths w) r)) \<Longrightarrow> x \<in> set (threadsList (tasks w r))"
  by (induction ths arbitrary: w) (auto dest: Thread_kill_subset simp del: Thread_kill_simps)

lemma kill_threadsList:
  "threadsList (tasks (kill r' w) r) =
     threadsList (tasks (kill_threads (rev (threadsList (tasks w r')))
        (upd_task r' (\<lambda>t. t\<lparr>status := TaskKill\<rparr>) (SimTask_kill r' w))) r)"
  by (simp add: kill_def Let_def deallocatePages_def Directory_rm_def SimTask_kill_def
      close_files_frame)

lemma kill_distinct:
  "distinct (threadsList (tasks w r)) \<Longrightarrow> distinct (threadsList (tasks (kill r' w) r))"
  unfolding kill_threadsList
  by (rule kill_threads_distinct) (auto simp: SimTask_kill_def)

lemma kill_subset:
  assumes "x \<in> set (threadsList (tasks (kill r' w) r))"
  shows "x \<in> set (threadsList (tasks w r))"
proof -
  let ?w2 = "upd_task r' (\<lambda>t. t\<lparr>status := TaskKill\<rparr>) (SimTask_kill r' w)"
  have same: "threadsList (tasks ?w2 r) = threadsList (tasks w r)"
    by (auto simp: SimTask_kill_def)
  from assms have "x \<in> set (threadsList (tasks ?w2 r))"
    unfolding kill_threadsList by (rule kill_threads_subset)
  with same show ?thesis by simp
qed

lemma threads_unique_kill: "threads_unique r w \<Longrightarrow> threads_unique r (kill r' w)"
  by (auto simp: threads_unique_def list_all_iff kill_distinct dest: kill_subset)

lemma threads_unique_setUserMode [simp]:
  "threads_unique r (setUserMode w) = threads_unique r w"
  by (simp add: threads_unique_def)

lemma threads_unique_killTask: "threads_unique r w \<Longrightarrow> threads_unique r (fst (killTask w))"
  using killTask_cases [of w] by (auto simp: threads_unique_kill)

lemma threads_unique_create: "threads_unique r w \<Longrightarrow> threads_unique r (fst (create np w))"
  using create_next_obj [of w np]
  by (auto simp: threads_unique_def list_all_iff create_tasks_other)

lemma threads_unique_spawn: "threads_unique r w \<Longrightarrow> threads_unique r (spawn r' w)"
  by (auto simp: threads_unique_def list_all_iff spawn_tasks spawn_next_obj)

lemma no_double_add_Cons:
  "no_double_add r (x # xs) w = (no_double_add r [x] w \<and> no_double_add r xs (exec_op x w))"
  by (cases x) simp_all

lemma threads_unique_exec_op:
  "threads_unique r w \<Longrightarrow> no_double_add r [x] w \<Longrightarrow> threads_unique r (exec_op x w)"
proof (cases x)
  case (OpAddThread r' th)
  assume "threads_unique r w" "no_double_add r [x] w"
  with OpAddThread show ?thesis
    by (auto simp: threads_unique_def list_all_iff addThread_def split: if_splits)
next
  case (OpRemoveThread r' th)
  assume "threads_unique r w"
  with OpRemoveThread show ?thesis
    using set_remove1_subset [of th "threadsList (tasks w r)"]
    by (auto simp: threads_unique_def list_all_iff)
next
  case (OpSetActiveThread r' y)
  assume "threads_unique r w"
  with OpSetActiveThread show ?thesis
    by (auto simp: threads_unique_def list_all_iff setActiveThread_def split: option.splits)
qed (auto simp: threads_unique_create threads_unique_killTask threads_unique_kill
      threads_unique_spawn, auto simp: threads_unique_def addOpenFile_def)

lemma threads_unique_run:
  "threads_unique r w \<Longrightarrow> no_double_add r xs w \<Longrightarrow> threads_unique r (run xs w)"
proof (induction xs arbitrary: w)
  case Nil
  then show ?case by simp
next
  case (Cons x xs)
  from Cons.prems(2) have a: "no_double_add r [x] w" "no_double_add r xs (exec_op x w)"
    by (simp_all add: no_double_add_Cons [of r x xs w])
  from threads_unique_exec_op [OF Cons.prems(1) a(1)] Cons.IH a(2) show ?case
    by simp
qed

lemma length_eq_exec_op:
  "spawn_or_neutral x \<Longrightarrow>
   nextThreadNum (tasks w r) = int (length (threadsList (tasks w r))) \<Longrightarrow>
   nextThreadNum (tasks (exec_op x w) r) = int (length (threadsList (tasks (exec_op x w) r)))"
  by (cases x) (auto simp: spawn_tasks setActiveThread_def addOpenFile_def split: option.splits)

lemma length_eq_run:
  "list_all spawn_or_neutral xs \<Longrightarrow>
   nextThreadNum (tasks w r) = int (length (threadsList (tasks w r))) \<Longrightarrow>
   nextThreadNum (tasks (run xs w) r) = int (length (threadsList (tasks (run xs w) r)))"
  by (induction xs arbitrary: w) (simp_all add: length_eq_exec_op)


lemma I3_Task_init: "I3 (tasks (snd (Task_init i u np w)) (fst (Task_init i u np w)))"
  by (simp add: I3_def Task_init_def fs_defs globals_defs Let_def split_def split: option.splits)

section \<open>Facts about the concrete states\<close>

lemmas two_tasks_defs = two_tasks_def task_one_def task_two_def fd_one_def fd_two_def
  thread_a_def thread_y_def no_task_def

lemma spawn_maxNumTasks: "maxNumTasks (spawn r w) = maxNumTasks w"
  by (simp add: spawn_def globals_defs fs_defs Let_def)

lemma active_task_1:
  "tasks active_task (Suc 0) = task_one\<lparr>activeThread := Some thread_a\<rparr>"
  by (simp add: active_task_def setActiveThread_def two_tasks_def task_one_def)



section \<open>Teardown\<close>




section \<open>Creation\<close>

text \<open>
  Claim C2. When \<open>create\<close> is called in privileged mode with \<open>nonPreemptive = False\<close> and
  the live-task count is below the maximum, it returns a new task: its status is
  \<open>TaskReady\<close>, its thread collection holds exactly one thread, with id 0, owned by the
  task and preemptive, its priority is 0, its user is what register 6 held, its id is
  the one the registry issued (and the registry moved on to the next id), the task is
  entered in the live-task table, and the mode is user mode on return.
\<close>

theorem create_builds_ready_task:
  assumes "getMode w = PrivilegedMode" and "getNumTasks w < getMaxNumTasks w"
  shows "snd (create False w) = Inr (Some (next_obj w))
    \<and> status (tasks (fst (create False w)) (next_obj w)) = TaskReady
    \<and> threadsList (tasks (fst (create False w)) (next_obj w)) =
        [\<lparr>thread_obj = next_obj w + 3, thread_id = 0, thread_task = next_obj w,
          thread_nonPreemptive = False\<rparr>]
    \<and> priority (tasks (fst (create False w)) (next_obj w)) = 0
    \<and> user (tasks (fst (create False w)) (next_obj w)) = getRegister w 6
    \<and> task_id (tasks (fst (create False w)) (next_obj w)) = fst (getUniqueTaskId w)
    \<and> nextTaskId (fst (create False w)) = nextTaskId w + 1
    \<and> liveTasks (fst (create False w)) = liveTasks w @ [next_obj w]
    \<and> getMode (fst (create False w)) = UserMode"
proof -
  have pos: "0 < maxNumTasks w"
    using assms(2) by (simp add: globals_defs)
  show ?thesis
    using assms(1) assms(2) pos
    by (simp add: create_def Task_init_def spawn_def globals_defs fs_defs Let_def split_def
        getNumThreads_def addThread_def upd_task_def split: option.splits)
qed

theorem create_builds_ready_task_witness:
  "getMode (boot 2 8) = PrivilegedMode
   \<and> getNumTasks (boot 2 8) < getMaxNumTasks (boot 2 8)
   \<and> snd (create False (boot 2 8)) = Inr (Some 1)
   \<and> status (tasks (fst (create False (boot 2 8))) 1) = TaskReady
   \<and> threadsList (tasks (fst (create False (boot 2 8))) 1) = [thread_a]
   \<and> priority (tasks (fst (create False (boot 2 8))) 1) = 0
   \<and> user (tasks (fst (create False (boot 2 8))) 1) = UserObj 0
   \<and> task_id (tasks (fst (create False (boot 2 8))) 1) = 0
   \<and> liveTasks (fst (create False (boot 2 8))) = [1]
   \<and> getMode (fst (create False (boot 2 8))) = UserMode"
proof -
  have m: "getMode (boot 2 8) = PrivilegedMode"
    by (simp add: boot_def getMode_def)
  have n: "getNumTasks (boot 2 8) < getMaxNumTasks (boot 2 8)"
    by (simp add: boot_def getNumTasks_def getMaxNumTasks_def)
  show ?thesis
    using m n create_builds_ready_task [OF m n]
    by (simp add: boot_def thread_a_def getRegister_def getUniqueTaskId_def)
qed

text \<open>
  Claim C7. When \<open>create\<close> is called in privileged mode and the live-task count is not
  below the maximum, it returns \<open>None\<close> without raising, and the only change to the
  state is the mode, now user mode: nothing is allocated and nothing is registered.
\<close>

theorem create_at_capacity:
  assumes "getMode w = PrivilegedMode" and "\<not> getNumTasks w < getMaxNumTasks w"
  shows "create np w = (w\<lparr>mode := UserMode\<rparr>, Inr None)"
  using assms by (simp add: create_def globals_defs)

theorem create_at_capacity_witness:
  "getMode full_house = PrivilegedMode
   \<and> \<not> getNumTasks full_house < getMaxNumTasks full_house
   \<and> create True full_house = (full_house\<lparr>mode := UserMode\<rparr>, Inr None)
   \<and> liveTasks (fst (create True full_house)) = [1]
   \<and> next_obj (fst (create True full_house)) = 5"
proof -
  have m: "getMode full_house = PrivilegedMode"
    by (rule full_house_facts)
  have n: "\<not> getNumTasks full_house < getMaxNumTasks full_house"
    by (simp add: getNumTasks_def getMaxNumTasks_def full_house_facts)
  show ?thesis
    using m n create_at_capacity [OF m n, of True]
    by (simp add: full_house_facts)
qed

text \<open>
  Claim C8. Outside privileged mode, \<open>create\<close> and \<open>killTask\<close> raise \<open>AssertionError\<close> and
  leave the whole state as it was; in privileged mode neither of them raises
  \<open>AssertionError\<close>.
\<close>

theorem privileged_mode_gate:
  "(getMode w \<noteq> PrivilegedMode \<longrightarrow>
      create np w = (w, Inl AssertionError) \<and> killTask w = (w, Inl AssertionError))
   \<and> (getMode w = PrivilegedMode \<longrightarrow>
      snd (create np w) \<noteq> Inl AssertionError \<and> snd (killTask w) \<noteq> Inl AssertionError)"
  by (simp add: create_def killTask_def Let_def split_def split: pyobj.splits)

theorem privileged_mode_gate_witness:
  "getMode (setUserMode (boot 2 8)) \<noteq> PrivilegedMode
   \<and> create False (setUserMode (boot 2 8)) = (setUserMode (boot 2 8), Inl AssertionError)
   \<and> killTask (setUserMode (boot 2 8)) = (setUserMode (boot 2 8), Inl AssertionError)
   \<and> getMode (boot 2 8) = PrivilegedMode
   \<and> snd (create False (boot 2 8)) \<noteq> Inl AssertionError
   \<and> snd (killTask (boot 2 8)) \<noteq> Inl AssertionError"
  using privileged_mode_gate [of "setUserMode (boot 2 8)" False]
    privileged_mode_gate [of "boot 2 8" False]
  by (simp add: boot_def getMode_def setUserMode_def)

section \<open>Spawning and the thread-id counter\<close>

text \<open>
  Claim C3. The claim has \<open>spawn\<close> add a thread exactly when the task has not reached
  the maximum thread count. The guard of line 309 compares \<open>getNumThreads\<close>, which is
  the next-thread-id counter, with \<open>Globals.getMaxNumTasks()\<close>, although the comment
  above it names \<open>getMaxNumThreads()\<close>. Two evaluations show both directions failing.
  With room for 5 tasks and 1 thread per task, a task that already has its one thread
  gets a second one from \<open>spawn\<close>. With room for 1 task and 8 threads per task, a task
  with one thread gets none: \<open>spawn\<close> returns with the collection and the counter as
  they were.
\<close>

theorem spawn_guard_failing_input:
  "length (threadsList (tasks (fst (create False (boot 5 1))) 1)) = 1
   \<and> getMaxNumThreads (fst (create False (boot 5 1))) = 1
   \<and> length (threadsList (tasks (spawn 1 (fst (create False (boot 5 1)))) 1)) = 2
   \<and> length (threadsList (tasks (fst (create False (boot 1 8))) 1)) = 1
   \<and> getMaxNumThreads (fst (create False (boot 1 8))) = 8
   \<and> length (threadsList (tasks (spawn 1 (fst (create False (boot 1 8)))) 1)) = 1
   \<and> nextThreadNum (tasks (spawn 1 (fst (create False (boot 1 8)))) 1) = 1"
  by (simp add: create_def Task_init_def spawn_def globals_defs fs_defs Let_def split_def
      getNumThreads_def addThread_def upd_task_def boot_def)

text \<open>
  Claim C4. For an existing task (its reference lies below the next free one) and any
  run of operations, the ids of the threads that \<open>spawn\<close> constructs for the task
  during the run are exactly the values the counter \<open>nextThreadNum\<close> passes through,
  from its value before the run up to one below its value after, in this order. So
  they are strictly increasing and pairwise different, also when threads are removed
  in between. The counter never decreases along a run; \<open>spawn\<close> does not decrease it,
  and \<open>addThread\<close>, \<open>removeThread\<close> and \<open>kill\<close> leave it as it is.
\<close>

theorem thread_ids_strictly_increase:
  assumes "r < next_obj w"
  shows "spawned r (new_calls ops w) =
           [nextThreadNum (tasks w r) .. nextThreadNum (tasks (run ops w) r) - 1]
    \<and> sorted_wrt (<) (spawned r (new_calls ops w))
    \<and> distinct (spawned r (new_calls ops w))
    \<and> nextThreadNum (tasks w r) \<le> nextThreadNum (tasks (run ops w) r)
    \<and> nextThreadNum (tasks w r) \<le> nextThreadNum (tasks (spawn r' w) r)
    \<and> nextThreadNum (addThread t th) = nextThreadNum t
    \<and> nextThreadNum (removeThread t th) = nextThreadNum t
    \<and> nextThreadNum (tasks (kill r' w) r) = nextThreadNum (tasks w r)"
  using new_calls_run [OF assms, of ops] by (simp add: spawn_tasks)

theorem thread_ids_strictly_increase_witness:
  "1 < next_obj two_tasks
   \<and> spawned 1 (new_calls [OpSpawn 1, OpRemoveThread 1 thread_a, OpSpawn 1] two_tasks) = [1, 2]
   \<and> sorted_wrt (<)
        (spawned 1 (new_calls [OpSpawn 1, OpRemoveThread 1 thread_a, OpSpawn 1] two_tasks))
   \<and> nextThreadNum (tasks two_tasks 1) = 1
   \<and> nextThreadNum (tasks (run [OpSpawn 1, OpRemoveThread 1 thread_a, OpSpawn 1] two_tasks) 1)
       = 3"
proof -
  have h: "1 < next_obj two_tasks"
    by (simp add: two_tasks_def)
  have n0: "nextThreadNum (tasks two_tasks 1) = 1"
    by (simp add: two_tasks_defs)
  have n1: "nextThreadNum (tasks (run [OpSpawn 1, OpRemoveThread 1 thread_a, OpSpawn 1]
      two_tasks) 1) = 3"
    by (simp add: spawn_tasks spawn_next_obj spawn_maxNumTasks two_tasks_defs)
  have u: "[1 .. 3 - 1] = [1, 2::int]"
    by (simp add: upto.simps)
  from thread_ids_strictly_increase
    [OF h, of "[OpSpawn 1, OpRemoveThread 1 thread_a, OpSpawn 1]"] h n0 n1 u
  show ?thesis by simp
qed

text \<open>
  Claim C10 as amended. \<open>getNumThreads\<close> returns the counter \<open>nextThreadNum\<close>, not the
  size of the thread collection. \<open>addThread\<close> and \<open>removeThread\<close> leave its value as it
  is; for an existing task it never decreases along a run, and it grows by the number
  of threads \<open>spawn\<close> constructed for the task during the run. Whenever it equals the
  length of the collection and the run contains no operation on thread collections
  other than \<open>spawn\<close>, it equals the length afterwards too. (The converse does not
  hold: adding a thread with \<open>addThread\<close> and removing it again leaves the two equal.)
\<close>

theorem getNumThreads_is_counter:
  assumes "r < next_obj w"
  shows "getNumThreads t = nextThreadNum t
    \<and> getNumThreads (addThread t th) = getNumThreads t
    \<and> getNumThreads (removeThread t th) = getNumThreads t
    \<and> getNumThreads (tasks w r) \<le> getNumThreads (tasks (run ops w) r)
    \<and> getNumThreads (tasks (run ops w) r) =
        getNumThreads (tasks w r) + int (length (spawned r (new_calls ops w)))
    \<and> (list_all spawn_or_neutral ops
          \<and> getNumThreads (tasks w r) = int (length (threadsList (tasks w r)))
        \<longrightarrow> getNumThreads (tasks (run ops w) r) =
              int (length (threadsList (tasks (run ops w) r))))"
  using new_calls_run [OF assms, of ops] length_eq_run [of ops w r]
  by (simp add: getNumThreads_def)

theorem getNumThreads_is_counter_witness:
  "1 < next_obj two_tasks
   \<and> getNumThreads (tasks (run [OpSpawn 1, OpRemoveThread 1 thread_a] two_tasks) 1) = 2
   \<and> length (threadsList (tasks (run [OpSpawn 1, OpRemoveThread 1 thread_a] two_tasks) 1)) = 1
   \<and> getNumThreads (tasks (run [OpSpawn 1, OpRemoveThread 1 thread_a] two_tasks) 1) =
       getNumThreads (tasks two_tasks 1)
       + int (length (spawned 1 (new_calls [OpSpawn 1, OpRemoveThread 1 thread_a] two_tasks)))
   \<and> list_all spawn_or_neutral [OpSpawn 1, OpSetActiveThread 1 None, OpSpawn 1]
   \<and> getNumThreads (tasks two_tasks 1) = int (length (threadsList (tasks two_tasks 1)))
   \<and> getNumThreads (tasks (run [OpSpawn 1, OpSetActiveThread 1 None, OpSpawn 1] two_tasks) 1) =
       int (length (threadsList
         (tasks (run [OpSpawn 1, OpSetActiveThread 1 None, OpSpawn 1] two_tasks) 1)))"
proof -
  have h: "1 < next_obj two_tasks"
    by (simp add: two_tasks_def)
  have e: "getNumThreads (tasks (run [OpSpawn 1, OpRemoveThread 1 thread_a] two_tasks) 1) = 2"
    "length (threadsList (tasks (run [OpSpawn 1, OpRemoveThread 1 thread_a] two_tasks) 1)) = 1"
    by (simp_all add: spawn_tasks getNumThreads_def two_tasks_defs)
  have f: "list_all spawn_or_neutral [OpSpawn 1, OpSetActiveThread 1 None, OpSpawn 1]"
    "getNumThreads (tasks two_tasks 1) = int (length (threadsList (tasks two_tasks 1)))"
    by (simp_all add: getNumThreads_def two_tasks_defs)
  from getNumThreads_is_counter [OF h, of _ _ "[OpSpawn 1, OpRemoveThread 1 thread_a]"]
    getNumThreads_is_counter [OF h, of _ _ "[OpSpawn 1, OpSetActiveThread 1 None, OpSpawn 1]"]
    h e f
  show ?thesis by blast
qed

text \<open>
  The claim as stated has the two equal only if no thread was removed and none was
  added other than by \<open>spawn\<close>. In the first task of \<open>two_tasks\<close> (one thread, counter
  1), \<open>addThread\<close> of another thread followed by \<open>removeThread\<close> of that thread does
  add and does remove a thread, and the two are equal afterwards.
\<close>

theorem getNumThreads_counterexample:
  "threadsList (tasks two_tasks 1) = [thread_a]
   \<and> threadsList (tasks (run [OpAddThread 1 thread_y] two_tasks) 1) = [thread_a, thread_y]
   \<and> threadsList (tasks (run [OpAddThread 1 thread_y, OpRemoveThread 1 thread_y] two_tasks) 1)
       = [thread_a]
   \<and> getNumThreads (tasks (run [OpAddThread 1 thread_y, OpRemoveThread 1 thread_y] two_tasks) 1)
       = int (length (threadsList
           (tasks (run [OpAddThread 1 thread_y, OpRemoveThread 1 thread_y] two_tasks) 1)))"
  by (simp add: addThread_def getNumThreads_def two_tasks_defs)

section \<open>The thread collection and the active thread\<close>

text \<open>
  Claim C5. Invariant I3, the active thread is none or a member of the thread
  collection, is kept by every operation: it holds of a task fresh from the
  constructor, a task that satisfies it still does after any run of operations on the
  system, and \<open>addThread\<close>, \<open>removeThread\<close> and \<open>setActiveThread\<close> (whether it returns or
  raises) each keep it. Removing the thread that is the active one sets the active
  thread to none.
\<close>

theorem active_thread_is_member:
  assumes "I3 (tasks w r)" and "I3 t"
  shows "I3 (tasks (run ops w) r)
    \<and> I3 (addThread t th)
    \<and> I3 (removeThread t th)
    \<and> I3 (fst (setActiveThread t x))
    \<and> (activeThread t = Some th \<longrightarrow> activeThread (removeThread t th) = None)
    \<and> I3 (tasks (snd (Task_init i u np w)) (fst (Task_init i u np w)))"
  using assms
  by (simp add: I3_run I3_addThread I3_removeThread I3_setActiveThread I3_Task_init)

theorem active_thread_is_member_witness:
  "I3 (tasks active_task 1)
   \<and> activeThread (tasks active_task 1) = Some thread_a
   \<and> I3 (tasks (run [OpAddThread 1 thread_y, OpRemoveThread 1 thread_a, OpSpawn 1] active_task) 1)
   \<and> I3 (addThread (tasks active_task 1) thread_y)
   \<and> I3 (removeThread (tasks active_task 1) thread_a)
   \<and> activeThread (removeThread (tasks active_task 1) thread_a) = None
   \<and> threadsList (removeThread (tasks active_task 1) thread_a) = []
   \<and> I3 (fst (setActiveThread (tasks active_task 1) (Some thread_y)))
   \<and> activeThread (fst (setActiveThread (tasks active_task 1) (Some thread_y))) = Some thread_a"
proof -
  have h: "I3 (tasks active_task 1)"
    by (simp add: I3_def active_task_1 task_one_def)
  have a: "activeThread (tasks active_task 1) = Some thread_a"
    by (simp add: active_task_1)
  have e: "threadsList (removeThread (tasks active_task 1) thread_a) = []"
    "activeThread (fst (setActiveThread (tasks active_task 1) (Some thread_y))) = Some thread_a"
    by (simp_all add: active_task_1 setActiveThread_def task_one_def thread_a_def thread_y_def)
  from active_thread_is_member [OF h h,
      of "[OpAddThread 1 thread_y, OpRemoveThread 1 thread_a, OpSpawn 1]" thread_y
         "Some thread_y"]
    active_thread_is_member [OF h h, of "[]" thread_a None] a e h
  show ?thesis by simp
qed

text \<open>
  Claim C6. The claim has \<open>setActiveThread\<close> fail with a \<open>SimException\<close> for a thread
  outside the collection, as the method's docstring says. Line 537 raises the built-in
  \<open>Exception\<close>, with a message that starts with the text \<open>SimException:\<close>. Evaluated
  on the first task of \<open>two_tasks\<close> with the thread of the second task: the task is
  left as it was, and the exception raised is an \<open>Exception\<close>, not a \<open>SimException\<close>.
\<close>

theorem setActiveThread_raises_plain_Exception:
  "thread_y \<notin> set (threadsList (tasks two_tasks 1))
   \<and> setActiveThread (tasks two_tasks 1) (Some thread_y) =
       (tasks two_tasks 1, Inl (Exception ''SimException: Thread DNE in List: '' thread_y))
   \<and> snd (setActiveThread (tasks two_tasks 1) (Some thread_y)) \<noteq>
       Inl (SimException ''SimException: Thread DNE in List: '' thread_y)"
  by (simp add: setActiveThread_def two_tasks_defs)

text \<open>
  Claim C9 as amended. If the threads of an existing task are pairwise different
  existing objects, they still are after any run of operations in which every
  \<open>addThread\<close> on the task passes an existing thread that is not in the collection at
  that moment. (\<open>spawn\<close> appends a newly constructed object, \<open>removeThread\<close> and \<open>kill\<close>
  only remove.) \<open>addThread\<close> itself does not look at the collection.
\<close>

theorem thread_collection_stays_unique:
  assumes "threads_unique r w" and "no_double_add r ops w"
  shows "distinct (threadsList (tasks (run ops w) r)) \<and> threads_unique r (run ops w)"
  using threads_unique_run [OF assms] by (simp add: threads_unique_def)

theorem thread_collection_stays_unique_witness:
  "threads_unique 1 two_tasks
   \<and> no_double_add 1
        [OpSpawn 1, OpAddThread 1 thread_y, OpRemoveThread 1 thread_a, OpAddThread 1 thread_a]
        two_tasks
   \<and> length (threadsList (tasks (run
        [OpSpawn 1, OpAddThread 1 thread_y, OpRemoveThread 1 thread_a, OpAddThread 1 thread_a]
        two_tasks) 1)) = 3
   \<and> distinct (threadsList (tasks (run
        [OpSpawn 1, OpAddThread 1 thread_y, OpRemoveThread 1 thread_a, OpAddThread 1 thread_a]
        two_tasks) 1))"
proof -
  have h1: "threads_unique 1 two_tasks"
    by (simp add: threads_unique_def two_tasks_defs)
  have h2: "no_double_add 1
        [OpSpawn 1, OpAddThread 1 thread_y, OpRemoveThread 1 thread_a, OpAddThread 1 thread_a]
        two_tasks"
    by (simp add: spawn_tasks spawn_next_obj addThread_def two_tasks_defs)
  have e: "length (threadsList (tasks (run
        [OpSpawn 1, OpAddThread 1 thread_y, OpRemoveThread 1 thread_a, OpAddThread 1 thread_a]
        two_tasks) 1)) = 3"
    by (simp add: spawn_tasks spawn_next_obj addThread_def two_tasks_defs)
  from thread_collection_stays_unique [OF h1 h2] h1 h2 e show ?thesis by simp
qed

text \<open>
  The claim as stated has no thread twice in the collection after any sequence of
  \<open>addThread\<close>, \<open>spawn\<close> and \<open>removeThread\<close>. \<open>addThread\<close> (line 439) appends without a
  membership test: passing the task's own first thread again puts it in the
  collection twice.
\<close>

theorem addThread_twice_counterexample:
  "distinct (threadsList (tasks two_tasks 1))
   \<and> threadsList (tasks (run [OpAddThread 1 thread_a] two_tasks) 1) = [thread_a, thread_a]
   \<and> \<not> distinct (threadsList (tasks (run [OpAddThread 1 thread_a] two_tasks) 1))"
  by (simp add: addThread_def two_tasks_def task_one_def)

end
